theory Spec2Isabelle
  imports Main
begin

section \<open>Python values and exceptions\<close>

text \<open>
  The repository is one module, \<^verbatim>\<open>lovers_base/model.py\<close>: SQLAlchemy declarative classes
  with four methods (\<^verbatim>\<open>Person.name\<close>, \<^verbatim>\<open>Participation.get_companions\<close>,
  \<^verbatim>\<open>Participation.get_inviter\<close>, \<^verbatim>\<open>Participation.status\<close>). A mapped class is a
  record of its columns; a nullable column is an \<open>option\<close>. An exception is a value
  \<open>Raised name\<close>, where \<open>name\<close> is the name of the Python exception class, and a function
  that can raise returns \<open>error + 'a\<close>.
\<close>

datatype error = Raised string

abbreviation IndexError :: error where "IndexError \<equiv> Raised ''IndexError''"
abbreviation AttributeError :: error where "AttributeError \<equiv> Raised ''AttributeError''"
abbreviation TypeError :: error where "TypeError \<equiv> Raised ''TypeError''"
abbreviation IntegrityError :: error where "IntegrityError \<equiv> Raised ''IntegrityError''"

text \<open>\<^verbatim>\<open>xs[i]\<close> on a Python list of length \<open>n\<close>: the element at \<open>i\<close> for \<open>0 \<le> i < n\<close>, the
  element at \<open>n + i\<close> for \<open>- n \<le> i < 0\<close>, and IndexError for every other index.\<close>

definition getitem :: "'a list \<Rightarrow> int \<Rightarrow> error + 'a" where
  "getitem xs i =
     (if 0 \<le> i \<and> i < int (length xs) then Inr (xs ! nat i)
      else if i < 0 \<and> - int (length xs) \<le> i then Inr (xs ! nat (int (length xs) + i))
      else Inl IndexError)"

section \<open>Enumerations\<close>

datatype Genitalia = female | male | other

datatype EventType = art_project | gentle_orgy | meeting | workshop

datatype Role = participant | organizer | assistant | artist | model | staff

datatype ParticipationStatus =
  invited | declined | signed | rejected | queued | accepted | withdrew | cancelled | faded
  | participated

section \<open>Person\<close>

text \<open>Columns of table \<^verbatim>\<open>person\<close>; \<open>Person_pk\<close> is the column \<^verbatim>\<open>id\<close>. The columns
  \<^verbatim>\<open>first_names\<close>, \<^verbatim>\<open>last_name\<close>, \<^verbatim>\<open>nickname\<close> and \<^verbatim>\<open>email\<close> are declared
  \<^verbatim>\<open>nullable=False\<close>.\<close>

record Person =
  Person_pk :: nat
  first_names :: string
  last_name :: string
  nickname :: string
  email :: string
  phone :: "string option"
  allergies :: "string option"

text \<open>A formatted string literal is the concatenation of its parts: literal text as it stands,
  a replacement field \<^verbatim>\<open>{e}\<close> as \<^verbatim>\<open>str(e)\<close>, which for a string is the string itself.\<close>

datatype fpart = Lit string | Field string

fun fpart_str :: "fpart \<Rightarrow> string" where
  "fpart_str (Lit s) = s"
| "fpart_str (Field s) = s"

definition fstring :: "fpart list \<Rightarrow> string" where
  "fstring parts = concat (map fpart_str parts)"

text \<open>\<^verbatim>\<open>Person.name\<close>: \<^verbatim>\<open>return f"{self.nickname} {self.last_name}"\<close>.\<close>

definition Person_name :: "Person \<Rightarrow> string" where
  "Person_name self = fstring [Field (nickname self), Lit '' '', Field (last_name self)]"

section \<open>Status log\<close>

text \<open>
  Columns of table \<^verbatim>\<open>status_log\<close>. \<open>attr_order\<close> is the Python instance attribute
  \<^verbatim>\<open>order\<close>: the class declares no column or attribute of that name, so an object made by the
  declarative constructor has none (\<open>None\<close>); once some code has assigned it, it is
  \<open>Some v\<close>, where \<open>v\<close> is \<open>None\<close> for Python's \<^verbatim>\<open>None\<close>.
\<close>

record StatusLog =
  participation_id :: "nat option"
  position :: "int option"
  timestamp :: "int option"
  status :: ParticipationStatus
  StatusLog_notes :: "string option"
  attr_order :: "int option option"

text \<open>
  \<^verbatim>\<open>Participation.status_log\<close> is declared with
  \<^verbatim>\<open>collection_class=sql_ordlist.ordering_list('order')\<close>: an \<^verbatim>\<open>OrderingList\<close> whose
  \<^verbatim>\<open>ordering_attr\<close> is \<^verbatim>\<open>'order'\<close>, whose ordering function counts from 0 and whose
  \<^verbatim>\<open>reorder_on_append\<close> is False. The library's methods, for that binding:
  \<^verbatim>\<open>
  def _get_order_value(self, entity): return getattr(entity, self.ordering_attr)
  def _set_order_value(self, entity, value): setattr(entity, self.ordering_attr, value)
  def _order_entity(self, index, entity, reorder=True):
      have = self._get_order_value(entity)
      if have is not None and not reorder: return
      should_be = self.ordering_func(index, self)
      if have != should_be: self._set_order_value(entity, should_be)
  def append(self, entity):
      super().append(entity)
      self._order_entity(len(self) - 1, entity, self.reorder_on_append)
  \<close>
\<close>

definition get_order_value :: "StatusLog \<Rightarrow> error + int option" where
  "get_order_value entity =
     (case attr_order entity of None \<Rightarrow> Inl AttributeError | Some v \<Rightarrow> Inr v)"

definition set_order_value :: "StatusLog \<Rightarrow> int option \<Rightarrow> StatusLog" where
  "set_order_value entity v = entity\<lparr>attr_order := Some v\<rparr>"

definition order_entity :: "nat \<Rightarrow> StatusLog \<Rightarrow> bool \<Rightarrow> error + StatusLog" where
  "order_entity index entity reorder =
     (case get_order_value entity of
        Inl e \<Rightarrow> Inl e
      | Inr have \<Rightarrow>
          if have \<noteq> None \<and> \<not> reorder then Inr entity
          else let should_be = Some (int index)
               in if have \<noteq> should_be then Inr (set_order_value entity should_be)
                  else Inr entity)"

text \<open>\<open>append\<close> returns the list as it is afterwards and the exception raised, if any: the
  entity is in the list before \<^verbatim>\<open>_order_entity\<close> runs, and the entity is updated in place.\<close>

definition OrderingList_append :: "StatusLog list \<Rightarrow> StatusLog \<Rightarrow> StatusLog list \<times> error option" where
  "OrderingList_append log entity =
     (let log' = log @ [entity]
      in case order_entity (length log' - 1) entity False of
           Inl e \<Rightarrow> (log', Some e)
         | Inr entity' \<Rightarrow> (log'[length log' - 1 := entity'], None))"

fun append_all :: "StatusLog list \<Rightarrow> StatusLog list \<Rightarrow> StatusLog list" where
  "append_all log [] = log"
| "append_all log (e # es) = append_all (fst (OrderingList_append log e)) es"

section \<open>Participation\<close>

text \<open>Columns of table \<^verbatim>\<open>participation\<close> (\<open>Participation_pk\<close> is the column \<^verbatim>\<open>id\<close>,
  \<open>None\<close> until the row is inserted) and the collection \<^verbatim>\<open>status_log\<close> the object
  holds. \<^verbatim>\<open>event_id\<close>, \<^verbatim>\<open>participant_id\<close> and \<^verbatim>\<open>role\<close> are \<^verbatim>\<open>nullable=False\<close>.\<close>

record Participation =
  Participation_pk :: "nat option"
  event_id :: nat
  participant_id :: nat
  role :: Role
  invitation_source_id :: "nat option"
  Participation_notes :: "string option"
  status_log :: "StatusLog list"

text \<open>\<^verbatim>\<open>Participation.status\<close>: \<^verbatim>\<open>return self.status_log[-1].status\<close>.\<close>

definition Participation_status :: "Participation \<Rightarrow> error + ParticipationStatus" where
  "Participation_status self =
     (case getitem (status_log self) (- 1) of
        Inl e \<Rightarrow> Inl e
      | Inr entry \<Rightarrow> Inr (status entry))"

text \<open>The specification's reading of the current status: the status of the entry with the
  maximum \<^verbatim>\<open>position\<close> (an unset position counts below every set one).\<close>

fun position_le :: "int option \<Rightarrow> int option \<Rightarrow> bool" where
  "position_le None _ = True"
| "position_le (Some a) None = False"
| "position_le (Some a) (Some b) = (a \<le> b)"

fun max_position_entry :: "StatusLog list \<Rightarrow> StatusLog option" where
  "max_position_entry [] = None"
| "max_position_entry (e # es) =
     (case max_position_entry es of
        None \<Rightarrow> Some e
      | Some m \<Rightarrow> if position_le (position m) (position e) then Some e else Some m)"

section \<open>The other mapped classes and the tables\<close>

text \<open>Columns of the tables \<^verbatim>\<open>participant\<close>, \<^verbatim>\<open>orientation\<close> and \<^verbatim>\<open>event\<close>; the field
  ending in \<open>_pk\<close> is the column \<^verbatim>\<open>id\<close>. \<^verbatim>\<open>Orientation.id\<close> is at once the primary key
  and \<^verbatim>\<open>ForeignKey('participant.id', ondelete="CASCADE")\<close>.\<close>

record Participant =
  Participant_pk :: nat
  birth_year :: "int option"
  genitalia :: Genitalia

record Orientation =
  Orientation_pk :: nat
  Orientation_female :: "int option"
  Orientation_male :: "int option"
  Orientation_other :: "int option"
  Orientation_comment :: "string option"

record Event =
  Event_pk :: nat
  Event_name :: string
  kind :: EventType
  start_time :: int
  end_time :: int
  location_id :: "nat option"
  language :: "string option"

text \<open>The stored rows, one list per table, in insertion order. \<open>tbl_person_id\<close> is the table
  of \<^verbatim>\<open>Individual\<close> (its \<^verbatim>\<open>__tablename__\<close> is \<^verbatim>\<open>person_id\<close>), a bare id.\<close>

record database =
  tbl_person_id :: "nat list"
  tbl_person :: "Person list"
  tbl_participant :: "Participant list"
  tbl_orientation :: "Orientation list"
  tbl_event :: "Event list"
  tbl_participation :: "Participation list"

section \<open>The declared constraints of table participation\<close>

text \<open>
  The module has no function that creates or stores a Participation and defines no
  exception class. What it says about stored participations is what the columns of
  \<^verbatim>\<open>Participation\<close> declare, and each declaration is a condition on the contents of the
  table:
  \<^item> \<^verbatim>\<open>id\<close>: \<^verbatim>\<open>primary_key=True\<close>: every row has an id and no two rows share one;
  \<^item> \<^verbatim>\<open>event_id\<close>: \<^verbatim>\<open>unique=True\<close>: no two rows share the event;
  \<^item> \<^verbatim>\<open>participant_id\<close>: \<^verbatim>\<open>unique=True\<close>: no two rows share the participant;
  \<^item> \<^verbatim>\<open>ForeignKey('event.id')\<close>, \<^verbatim>\<open>ForeignKey('participant.id')\<close> and, for
    \<^verbatim>\<open>invitation_source_id\<close>, \<^verbatim>\<open>ForeignKey('participation.id')\<close> (nullable): the row
    named exists.
  The conditions below say which table contents the declarations admit; a database that does
  not enforce the foreign keys admits more contents, not fewer.
\<close>

definition primary_key_ok :: "Participation list \<Rightarrow> bool" where
  "primary_key_ok rows \<longleftrightarrow>
     list_all (\<lambda>p. Participation_pk p \<noteq> None) rows \<and> distinct (map Participation_pk rows)"

definition unique_event_id :: "Participation list \<Rightarrow> bool" where
  "unique_event_id rows \<longleftrightarrow> distinct (map event_id rows)"

definition unique_participant_id :: "Participation list \<Rightarrow> bool" where
  "unique_participant_id rows \<longleftrightarrow> distinct (map participant_id rows)"

definition foreign_key_ok :: "database \<Rightarrow> Participation \<Rightarrow> bool" where
  "foreign_key_ok db p \<longleftrightarrow>
     event_id p \<in> set (map Event_pk (tbl_event db))
     \<and> participant_id p \<in> set (map Participant_pk (tbl_participant db))
     \<and> (case invitation_source_id p of
          None \<Rightarrow> True
        | Some s \<Rightarrow> Some s \<in> set (map Participation_pk (tbl_participation db)))"

definition participation_constraints :: "database \<Rightarrow> bool" where
  "participation_constraints db \<longleftrightarrow>
     primary_key_ok (tbl_participation db)
     \<and> unique_event_id (tbl_participation db)
     \<and> unique_participant_id (tbl_participation db)
     \<and> list_all (foreign_key_ok db) (tbl_participation db)"

text \<open>The table with one more row.\<close>

definition with_row :: "database \<Rightarrow> Participation \<Rightarrow> database" where
  "with_row db p = db\<lparr>tbl_participation := tbl_participation db @ [p]\<rparr>"




section \<open>The connect listener\<close>

text \<open>
  \<^verbatim>\<open>set_sqlite_pragma(dbapi_connection, connection_record)\<close> listens to the \<^verbatim>\<open>connect\<close>
  event of every Engine; its docstring is "Enables foreign key support on SQLite". The
  event passes the raw DBAPI connection. Of that object the function reads the attribute
  \<^verbatim>\<open>engine\<close> (\<open>None\<close> below when the object has no such attribute) and, through a cursor,
  executes one statement.
  \<^verbatim>\<open>
  if dbapi_connection.engine.driver != 'pysqlite':
      return
  cursor = dbapi_connection.cursor()
  cursor.execute("PRAGMA foreign_keys=ON")
  cursor.close()
  \<close>
\<close>

record Engine =
  driver :: string

record DBAPIConnection =
  attr_engine :: "Engine option"
  executed :: "string list"

definition set_sqlite_pragma :: "DBAPIConnection \<Rightarrow> error + DBAPIConnection" where
  "set_sqlite_pragma dbapi_connection =
     (case attr_engine dbapi_connection of
        None \<Rightarrow> Inl AttributeError
      | Some engine \<Rightarrow>
          if driver engine \<noteq> ''pysqlite'' then Inr dbapi_connection
          else Inr (dbapi_connection
                 \<lparr>executed := executed dbapi_connection @ [''PRAGMA foreign_keys=ON'']\<rparr>))"


section \<open>The relationships of Participation and its two methods\<close>

text \<open>
  What an attribute of a Participation object evaluates to is a Python object: None, a mapped
  object, a list (a relationship with \<^verbatim>\<open>uselist\<close>) or the tuple a method builds.
\<close>

datatype pyobj =
  PyNone
  | PyParticipation Participation
  | PyParticipant Participant
  | PyEvent Event
  | PyList "pyobj list"
  | PyTuple "pyobj list"

text \<open>
  \<^verbatim>\<open>event = sql_orm.relationship(lambda: Event, uselist=False)\<close> and
  \<^verbatim>\<open>participant = sql_orm.relationship(lambda: Event, uselist=False)\<close>: both name the class
  Event, so both join on the one foreign key from \<^verbatim>\<open>participation\<close> to \<^verbatim>\<open>event\<close>, the
  column \<^verbatim>\<open>event_id\<close>, and both are the Event row of the participation.
\<close>

definition Participation_event :: "database \<Rightarrow> Participation \<Rightarrow> pyobj" where
  "Participation_event db self =
     (case find (\<lambda>e. Event_pk e = event_id self) (tbl_event db) of
        None \<Rightarrow> PyNone
      | Some e \<Rightarrow> PyEvent e)"

definition Participation_participant :: "database \<Rightarrow> Participation \<Rightarrow> pyobj" where
  "Participation_participant db self =
     (case find (\<lambda>e. Event_pk e = event_id self) (tbl_event db) of
        None \<Rightarrow> PyNone
      | Some e \<Rightarrow> PyEvent e)"

text \<open>
  \<^verbatim>\<open>invitation_targets = sql_orm.relationship(lambda: Participation, remote_side=[id],
  backref='invitation_source')\<close>. The relationship is self-referential over the foreign key
  \<^verbatim>\<open>invitation_source_id\<close>, and \<^verbatim>\<open>remote_side=[id]\<close> puts the primary key on the remote
  side: the local column is the foreign key, the relationship is many-to-one and scalar
  (the adjacency-list pattern, where \<^verbatim>\<open>parent = relationship("Node", remote_side=[id])\<close>
  is the parent). So \<^verbatim>\<open>invitation_targets\<close> of a participation is the one participation
  whose \<^verbatim>\<open>id\<close> is its \<^verbatim>\<open>invitation_source_id\<close>, or None; and the backref
  \<^verbatim>\<open>invitation_source\<close>, the reverse direction, is one-to-many: the list of the
  participations whose \<^verbatim>\<open>invitation_source_id\<close> is its \<^verbatim>\<open>id\<close>, which the table
  yields in the order of its primary key (no \<^verbatim>\<open>order_by\<close> is declared).
\<close>

definition invitation_targets :: "database \<Rightarrow> Participation \<Rightarrow> pyobj" where
  "invitation_targets db self =
     (case invitation_source_id self of
        None \<Rightarrow> PyNone
      | Some s \<Rightarrow>
          (case find (\<lambda>q. Participation_pk q = Some s) (tbl_participation db) of
             None \<Rightarrow> PyNone
           | Some q \<Rightarrow> PyParticipation q))"

definition pk_key :: "Participation \<Rightarrow> nat" where
  "pk_key q = (case Participation_pk q of None \<Rightarrow> 0 | Some k \<Rightarrow> k)"

definition invitation_source :: "database \<Rightarrow> Participation \<Rightarrow> pyobj" where
  "invitation_source db self =
     PyList (map PyParticipation
       (sort_key pk_key
          (filter (\<lambda>q. invitation_source_id q \<noteq> None
                     \<and> invitation_source_id q = Participation_pk self)
             (tbl_participation db))))"

text \<open>\<^verbatim>\<open>x.participant\<close>: the relationship when \<open>x\<close> is a Participation; None, a list, a
  tuple, an Event and a Participant have no attribute of that name.\<close>

definition getattr_participant :: "database \<Rightarrow> pyobj \<Rightarrow> error + pyobj" where
  "getattr_participant db x =
     (case x of
        PyParticipation p \<Rightarrow> Inr (Participation_participant db p)
      | _ \<Rightarrow> Inl AttributeError)"

text \<open>\<^verbatim>\<open>for target in x\<close>: a list or a tuple gives its elements; None and a mapped object are
  not iterable.\<close>

definition py_iter :: "pyobj \<Rightarrow> error + pyobj list" where
  "py_iter x = (case x of PyList xs \<Rightarrow> Inr xs | PyTuple xs \<Rightarrow> Inr xs | _ \<Rightarrow> Inl TypeError)"

fun collect :: "(error + 'a) list \<Rightarrow> error + 'a list" where
  "collect [] = Inr []"
| "collect (Inl e # rs) = Inl e"
| "collect (Inr x # rs) = (case collect rs of Inl e \<Rightarrow> Inl e | Inr xs \<Rightarrow> Inr (x # xs))"

text \<open>\<^verbatim>\<open>get_companions\<close>:
  \<^verbatim>\<open>return tuple((target.participant for target in self.invitation_targets))\<close>.\<close>

definition get_companions :: "database \<Rightarrow> Participation \<Rightarrow> error + pyobj" where
  "get_companions db self =
     (case py_iter (invitation_targets db self) of
        Inl e \<Rightarrow> Inl e
      | Inr targets \<Rightarrow>
          (case collect (map (getattr_participant db) targets) of
             Inl e \<Rightarrow> Inl e
           | Inr ps \<Rightarrow> Inr (PyTuple ps)))"

text \<open>\<^verbatim>\<open>get_inviter\<close>:
  \<^verbatim>\<open>source = self.invitation_source\<close>;
  \<^verbatim>\<open>return source.participant if source is not None else None\<close>.\<close>

definition get_inviter :: "database \<Rightarrow> Participation \<Rightarrow> error + pyobj" where
  "get_inviter db self =
     (let source = invitation_source db self
      in if source \<noteq> PyNone then getattr_participant db source else Inr PyNone)"

section \<open>Example objects\<close>

text \<open>\<^verbatim>\<open>StatusLog(status=s, timestamp=t)\<close> and \<^verbatim>\<open>StatusLog(position=k, status=s, timestamp=t)\<close>
  as the declarative constructor makes them.\<close>

definition new_StatusLog :: "int option \<Rightarrow> ParticipationStatus \<Rightarrow> int \<Rightarrow> StatusLog" where
  "new_StatusLog k s t =
     \<lparr>participation_id = None, position = k, timestamp = Some t, status = s,
      StatusLog_notes = None, attr_order = None\<rparr>"

definition new_Participation :: "nat \<Rightarrow> nat \<Rightarrow> nat option \<Rightarrow> Participation" where
  "new_Participation e a src =
     \<lparr>Participation_pk = None, event_id = e, participant_id = a, role = participant,
      invitation_source_id = src, Participation_notes = None, status_log = []\<rparr>"

text \<open>A participation whose log holds, in append order, an entry with position 1 and then an
  entry with position 0.\<close>

definition P_positions_out_of_order :: Participation where
  "P_positions_out_of_order =
     (new_Participation 1 1 None)
       \<lparr>status_log := [new_StatusLog (Some 1) signed 200, new_StatusLog (Some 0) invited 100]\<rparr>"

text \<open>A fresh participation after \<^verbatim>\<open>status_log.append(StatusLog(status=invited, ..))\<close> and
  \<^verbatim>\<open>status_log.append(StatusLog(status=signed, ..))\<close>, the second entry backdated.\<close>

definition P_appended :: Participation where
  "P_appended =
     (new_Participation 1 1 None)
       \<lparr>status_log := append_all [] [new_StatusLog None invited 200, new_StatusLog None signed 100]\<rparr>"

text \<open>Two events, two participants (the first with an orientation) and no participation.\<close>

definition event_E1 :: Event where
  "event_E1 = \<lparr>Event_pk = 1, Event_name = ''E1'', kind = workshop, start_time = 10,
     end_time = 20, location_id = None, language = None\<rparr>"

definition event_E2 :: Event where
  "event_E2 = \<lparr>Event_pk = 2, Event_name = ''E2'', kind = meeting, start_time = 30,
     end_time = 40, location_id = None, language = None\<rparr>"

definition participant_A :: Participant where
  "participant_A = \<lparr>Participant_pk = 1, birth_year = Some 1980, genitalia = female\<rparr>"

definition participant_B :: Participant where
  "participant_B = \<lparr>Participant_pk = 2, birth_year = None, genitalia = other\<rparr>"

definition orientation_A :: Orientation where
  "orientation_A = \<lparr>Orientation_pk = 1, Orientation_female = Some 1, Orientation_male = Some 2,
     Orientation_other = None, Orientation_comment = None\<rparr>"

definition orientation_B :: Orientation where
  "orientation_B = \<lparr>Orientation_pk = 2, Orientation_female = None, Orientation_male = Some 5,
     Orientation_other = Some 3, Orientation_comment = Some ''x''\<rparr>"

definition db0 :: database where
  "db0 = \<lparr>tbl_person_id = [1, 2], tbl_person = [], tbl_participant = [participant_A, participant_B],
     tbl_orientation = [orientation_A, orientation_B], tbl_event = [event_E1, event_E2],
     tbl_participation = []\<rparr>"

text \<open>A's participation in E1, stored with id 1, and B's participation in E2, stored with
  id 2 and invited by A's.\<close>

definition participation_A :: Participation where
  "participation_A = (new_Participation 1 1 None)\<lparr>Participation_pk := Some 1\<rparr>"

definition participation_B :: Participation where
  "participation_B = (new_Participation 2 2 (Some 1))\<lparr>Participation_pk := Some 2\<rparr>"

definition db_A :: database where
  "db_A = db0\<lparr>tbl_participation := [participation_A]\<rparr>"

definition db_AB :: database where
  "db_AB = db0\<lparr>tbl_participation := [participation_A, participation_B]\<rparr>"



text \<open>B's participation in the event of A's participation, and A's second participation, in
  another event.\<close>

definition participation_B_in_E1 :: Participation where
  "participation_B_in_E1 = (new_Participation 1 2 None)\<lparr>Participation_pk := Some 2\<rparr>"

definition participation_A_in_E2 :: Participation where
  "participation_A_in_E2 = (new_Participation 2 1 None)\<lparr>Participation_pk := Some 2\<rparr>"


section \<open>Theorems\<close>

text \<open>C10: for every Person record, the derived \<^verbatim>\<open>name\<close> is the nickname, one space, and
  the last name; the first names (and every other column) do not enter it.\<close>

theorem Person_name_nickname_space_last_name:
  "Person_name p = nickname p @ [CHR '' ''] @ last_name p
   \<and> length (Person_name p) = length (nickname p) + 1 + length (last_name p)
   \<and> Person_name (p\<lparr>first_names := f\<rparr>) = Person_name p
   \<and> Person_name (p\<lparr>Person_pk := k, email := e, phone := ph, allergies := a\<rparr>) = Person_name p"
  by (simp add: Person_name_def fstring_def)

subsection \<open>Current status\<close>

lemma getitem_last: "xs \<noteq> [] \<Longrightarrow> getitem xs (- 1) = Inr (last xs)"
  by (cases xs rule: rev_cases) (simp_all add: getitem_def nth_append)

lemma getitem_Nil: "getitem [] i = Inl IndexError"
  by (simp add: getitem_def)

lemma Participation_status_nonempty:
  "status_log p \<noteq> [] \<Longrightarrow> Participation_status p = Inr (status (last (status_log p)))"
  by (simp add: Participation_status_def getitem_last)

lemma Participation_status_empty:
  "status_log p = [] \<Longrightarrow> Participation_status p = Inl IndexError"
  by (simp add: Participation_status_def getitem_Nil)

lemma OrderingList_append_position:
  "map position (fst (OrderingList_append log e)) = map position log @ [position e]"
  by (auto simp: OrderingList_append_def Let_def order_entity_def get_order_value_def
      set_order_value_def split: sum.splits option.splits if_splits)

lemma append_all_position:
  "map position (append_all log es) = map position log @ map position es"
  by (induction es arbitrary: log) (simp_all add: OrderingList_append_position)

text \<open>C1 fails on the code: the accessor returns the status of the last element of the list,
  and nothing relates the place of an entry in the list to its \<^verbatim>\<open>position\<close>. After two
  appends to a fresh Participation no entry has a position at all, so the status returned
  is not that of an entry with the maximum position; and in a log whose entries carry the
  positions 1 and 0, in that order, the status returned is that of the entry with position
  0, while the entry with the maximum position has another status.\<close>

theorem Participation_status_ignores_position:
  "Participation_status P_appended = Inr signed
   \<and> map position (status_log P_appended) = [None, None]
   \<and> Participation_status P_positions_out_of_order = Inr invited
   \<and> map position (status_log P_positions_out_of_order) = [Some 1, Some 0]
   \<and> map_option status (max_position_entry (status_log P_positions_out_of_order)) = Some signed"
  by (simp add: Participation_status_def getitem_def P_appended_def P_positions_out_of_order_def
      new_Participation_def new_StatusLog_def OrderingList_append_def order_entity_def
      get_order_value_def)

text \<open>C3, as the specification states it, fails: on an empty log the accessor raises
  Python's IndexError; no EmptyLogError exists in the module.\<close>

theorem Participation_status_empty_counterexample:
  "Participation_status (new_Participation 1 1 None) = Inl IndexError
   \<and> Participation_status (new_Participation 1 1 None) \<noteq> Inl (Raised ''EmptyLogError'')"
  by (simp add: Participation_status_def getitem_def new_Participation_def)

text \<open>C3 (amended): querying the current status of a Participation fails, with IndexError,
  exactly when its status log has no entries; with at least one entry it returns a status.\<close>

theorem Participation_status_fails_iff_empty:
  "(Participation_status p = Inl IndexError) = (status_log p = [])
   \<and> (\<exists>e. Participation_status p = Inl e) = (status_log p = [])
   \<and> (\<exists>s. Participation_status p = Inr s) = (status_log p \<noteq> [])"
  by (cases "status_log p = []")
    (simp_all add: Participation_status_nonempty Participation_status_empty)

subsection \<open>Positions of appended entries\<close>

text \<open>C2 fails on the code: appending an entry to the status log of a fresh Participation
  consults the attribute \<^verbatim>\<open>order\<close>, which a StatusLog does not have, and leaves
  \<^verbatim>\<open>position\<close> unset; three appends leave three unset positions, not 0, 1, 2.\<close>

theorem OrderingList_append_leaves_position_unset:
  "OrderingList_append [] (new_StatusLog None invited 100)
     = ([new_StatusLog None invited 100], Some AttributeError)
   \<and> map position
       (append_all []
          [new_StatusLog None invited 100, new_StatusLog None signed 200,
           new_StatusLog None accepted 300])
     = [None, None, None]"
  by (simp add: OrderingList_append_def order_entity_def get_order_value_def new_StatusLog_def)

subsection \<open>The declared constraints of table participation\<close>

lemma foreign_key_ok_with_row:
  "foreign_key_ok db q \<Longrightarrow> foreign_key_ok (with_row db p) q"
  by (auto simp: foreign_key_ok_def with_row_def split: option.splits)

lemma participation_constraints_with_row:
  assumes "participation_constraints db"
    and "Participation_pk p \<noteq> None"
    and "Participation_pk p \<notin> set (map Participation_pk (tbl_participation db))"
    and "event_id p \<notin> set (map event_id (tbl_participation db))"
    and "participant_id p \<notin> set (map participant_id (tbl_participation db))"
    and "foreign_key_ok (with_row db p) p"
  shows "participation_constraints (with_row db p)"
proof -
  have rows: "tbl_participation (with_row db p) = tbl_participation db @ [p]"
    by (simp add: with_row_def)
  from assms(1) have old: "list_all (foreign_key_ok db) (tbl_participation db)"
    by (simp add: participation_constraints_def)
  then have "list_all (foreign_key_ok (with_row db p)) (tbl_participation db)"
    by (simp add: list_all_iff foreign_key_ok_with_row)
  with assms show ?thesis
    by (simp add: participation_constraints_def rows primary_key_ok_def unique_event_id_def
        unique_participant_id_def)
qed



text \<open>C4, as the specification states it, fails: uniqueness is declared per column, not per
  pair. Beside A's participation in event E1, a participation of B in E1 (which shares only
  the event) violates the uniqueness of \<^verbatim>\<open>event_id\<close>, and a participation of A in E2
  (which shares only the participant) violates the uniqueness of \<^verbatim>\<open>participant_id\<close>,
  though each satisfies the primary key and the foreign keys.\<close>

theorem participation_unique_per_column_counterexample:
  "participation_constraints db_A
   \<and> participant_id participation_B_in_E1 \<noteq> participant_id participation_A
   \<and> primary_key_ok (tbl_participation (with_row db_A participation_B_in_E1))
   \<and> list_all (foreign_key_ok (with_row db_A participation_B_in_E1))
       (tbl_participation (with_row db_A participation_B_in_E1))
   \<and> \<not> unique_event_id (tbl_participation (with_row db_A participation_B_in_E1))
   \<and> \<not> participation_constraints (with_row db_A participation_B_in_E1)
   \<and> event_id participation_A_in_E2 \<noteq> event_id participation_A
   \<and> \<not> unique_participant_id (tbl_participation (with_row db_A participation_A_in_E2))
   \<and> \<not> participation_constraints (with_row db_A participation_A_in_E2)"
  by (simp add: participation_constraints_def primary_key_ok_def unique_event_id_def
      unique_participant_id_def foreign_key_ok_def with_row_def db_A_def db0_def
      participation_A_def participation_B_in_E1_def participation_A_in_E2_def
      new_Participation_def event_E1_def event_E2_def participant_A_def participant_B_def)

text \<open>C4 (amended): for every participant A and event E, the declared constraints exclude a
  second Participation for the same (A, E) pair: a table that holds a Participation of A in
  E and is given one more violates them.\<close>

theorem participation_constraints_exclude_second_for_pair:
  assumes "q \<in> set (tbl_participation db)"
    and "event_id p = event_id q" and "participant_id p = participant_id q"
  shows "\<not> participation_constraints (with_row db p)"
proof -
  from assms(1,2) have "event_id p \<in> set (map event_id (tbl_participation db))"
    by auto
  then have "\<not> unique_event_id (tbl_participation db @ [p])"
    by (simp add: unique_event_id_def)
  then show ?thesis
    by (simp add: participation_constraints_def with_row_def)
qed

theorem participation_constraints_exclude_second_for_pair_witness:
  "participation_constraints db_A
   \<and> participation_A \<in> set (tbl_participation db_A)
   \<and> event_id (new_Participation 1 1 None) = event_id participation_A
   \<and> participant_id (new_Participation 1 1 None) = participant_id participation_A
   \<and> \<not> participation_constraints (with_row db_A (new_Participation 1 1 None))"
proof -
  have 0: "participation_constraints db_A"
    by (simp add: participation_constraints_def primary_key_ok_def unique_event_id_def
        unique_participant_id_def foreign_key_ok_def db_A_def db0_def participation_A_def
        new_Participation_def event_E1_def event_E2_def participant_A_def participant_B_def)
  have 1: "participation_A \<in> set (tbl_participation db_A)"
    by (simp add: db_A_def)
  have 2: "event_id (new_Participation 1 1 None) = event_id participation_A"
    by (simp add: participation_A_def new_Participation_def)
  have 3: "participant_id (new_Participation 1 1 None) = participant_id participation_A"
    by (simp add: participation_A_def new_Participation_def)
  from participation_constraints_exclude_second_for_pair [OF 1 2 3] 0 1 2 3
  show ?thesis by simp
qed

text \<open>C5, as the specification states it, fails: the table that holds A's participation in
  event E1 and B's participation in event E2, the second naming the first as its invitation
  source, satisfies every declared constraint; its invitation link connects participations
  of different events.\<close>

theorem participation_constraints_cross_event_counterexample:
  "participation_constraints db_AB
   \<and> tbl_participation db_AB = [participation_A, participation_B]
   \<and> invitation_source_id participation_B = Participation_pk participation_A
   \<and> event_id participation_B \<noteq> event_id participation_A"
  by (simp add: participation_constraints_def primary_key_ok_def unique_event_id_def
      unique_participant_id_def foreign_key_ok_def db_AB_def db0_def participation_A_def
      participation_B_def new_Participation_def event_E1_def event_E2_def participant_A_def
      participant_B_def)

text \<open>C5 (amended): no declared constraint compares the event of a Participation with the
  event of its invitation source. A table that satisfies the declared constraints still
  satisfies them with one more Participation whose invitation source is a stored
  Participation of a different Event, whenever the new row has an unused id and its event
  and its participant exist and have no participation yet.\<close>

theorem participation_constraints_admit_cross_event_inviter:
  assumes db: "participation_constraints db"
    and stored: "q \<in> set (tbl_participation db)" "Participation_pk q = Some s"
    and inviter: "invitation_source_id p = Some s"
    and other_event: "event_id q \<noteq> event_id p"
    and pk: "Participation_pk p = Some k"
      "Some k \<notin> set (map Participation_pk (tbl_participation db))"
    and unique: "event_id p \<notin> set (map event_id (tbl_participation db))"
      "participant_id p \<notin> set (map participant_id (tbl_participation db))"
    and fk: "event_id p \<in> set (map Event_pk (tbl_event db))"
      "participant_id p \<in> set (map Participant_pk (tbl_participant db))"
  shows "participation_constraints (with_row db p)
    \<and> p \<in> set (tbl_participation (with_row db p))
    \<and> q \<in> set (tbl_participation (with_row db p))"
proof -
  from stored have "Some s \<in> set (map Participation_pk (tbl_participation db))"
    by force
  with inviter fk have "foreign_key_ok (with_row db p) p"
    by (simp add: foreign_key_ok_def with_row_def)
  with db pk unique have "participation_constraints (with_row db p)"
    by (intro participation_constraints_with_row) simp_all
  with stored(1) show ?thesis by (simp add: with_row_def)
qed

theorem participation_constraints_admit_cross_event_inviter_witness:
  "participation_constraints db_A
   \<and> participation_A \<in> set (tbl_participation db_A)
   \<and> invitation_source_id participation_B = Participation_pk participation_A
   \<and> event_id participation_A \<noteq> event_id participation_B
   \<and> participation_constraints (with_row db_A participation_B)
   \<and> participation_B \<in> set (tbl_participation (with_row db_A participation_B))"
proof -
  have 0: "participation_constraints db_A"
    by (simp add: participation_constraints_def primary_key_ok_def unique_event_id_def
        unique_participant_id_def foreign_key_ok_def db_A_def db0_def participation_A_def
        new_Participation_def event_E1_def event_E2_def participant_A_def participant_B_def)
  have 1: "participation_A \<in> set (tbl_participation db_A)"
    by (simp add: db_A_def)
  have 2: "Participation_pk participation_A = Some 1"
    by (simp add: participation_A_def)
  have 3: "invitation_source_id participation_B = Some 1"
    by (simp add: participation_B_def new_Participation_def)
  have 4: "event_id participation_A \<noteq> event_id participation_B"
    by (simp add: participation_A_def participation_B_def new_Participation_def)
  have 5: "Participation_pk participation_B = Some 2"
    by (simp add: participation_B_def)
  have 6: "Some 2 \<notin> set (map Participation_pk (tbl_participation db_A))"
    by (simp add: db_A_def participation_A_def)
  have 7: "event_id participation_B \<notin> set (map event_id (tbl_participation db_A))"
    by (simp add: db_A_def participation_A_def participation_B_def new_Participation_def)
  have 8: "participant_id participation_B \<notin> set (map participant_id (tbl_participation db_A))"
    by (simp add: db_A_def participation_A_def participation_B_def new_Participation_def)
  have 9: "event_id participation_B \<in> set (map Event_pk (tbl_event db_A))"
    by (simp add: db_A_def db0_def participation_B_def new_Participation_def event_E1_def
        event_E2_def)
  have 10: "participant_id participation_B \<in> set (map Participant_pk (tbl_participant db_A))"
    by (simp add: db_A_def db0_def participation_B_def new_Participation_def participant_A_def
        participant_B_def)
  from participation_constraints_admit_cross_event_inviter [OF 0 1 2 3 4 5 6 7 8 9 10]
    0 1 2 3 4
  show ?thesis by simp
qed

subsection \<open>The invitation graph\<close>




subsection \<open>Inviter and companions\<close>

lemma get_inviter_raises: "get_inviter db p = Inl AttributeError"
  by (simp add: get_inviter_def invitation_source_def getattr_participant_def)

lemma get_companions_raises: "get_companions db p = Inl TypeError"
  by (simp add: get_companions_def invitation_targets_def py_iter_def split: option.splits)

text \<open>C7 fails on the code: for B's participation, invited by A's, \<^verbatim>\<open>get_inviter\<close> does
  not return participant A, and for A's participation, which has no inviter, it does not
  return None: \<^verbatim>\<open>invitation_source\<close> is the list of the invited participations, and a list
  has no attribute \<^verbatim>\<open>participant\<close>. The attribute \<^verbatim>\<open>participant\<close> of a Participation is
  moreover its Event.\<close>

theorem get_inviter_AttributeError:
  "get_inviter db_AB participation_B = Inl AttributeError
   \<and> get_inviter db_AB participation_B \<noteq> Inr (PyParticipant participant_A)
   \<and> invitation_source_id participation_A = None
   \<and> get_inviter db_AB participation_A = Inl AttributeError
   \<and> get_inviter db_AB participation_A \<noteq> Inr PyNone
   \<and> invitation_source db_AB participation_B = PyList []
   \<and> invitation_source db_AB participation_A = PyList [PyParticipation participation_B]
   \<and> Participation_participant db_AB participation_A = PyEvent event_E1"
  by (simp add: get_inviter_def invitation_source_def getattr_participant_def
      Participation_participant_def db_AB_def db0_def participation_A_def participation_B_def
      new_Participation_def event_E1_def event_E2_def)

text \<open>C8 fails on the code: for A's participation, which invited B's, \<^verbatim>\<open>get_companions\<close>
  does not return the tuple of participant B: \<^verbatim>\<open>invitation_targets\<close> is the one inviting
  participation or None, and neither can be iterated.\<close>

theorem get_companions_TypeError:
  "get_companions db_AB participation_A = Inl TypeError
   \<and> get_companions db_AB participation_A \<noteq> Inr (PyTuple [PyParticipant participant_B])
   \<and> get_companions db_AB participation_B = Inl TypeError
   \<and> invitation_targets db_AB participation_A = PyNone
   \<and> invitation_targets db_AB participation_B = PyParticipation participation_A"
  by (simp add: get_companions_def invitation_targets_def py_iter_def db_AB_def db0_def
      participation_A_def participation_B_def new_Participation_def)

subsection \<open>The connect listener\<close>

lemma set_sqlite_pragma_without_engine:
  "attr_engine c = None \<Longrightarrow> set_sqlite_pragma c = Inl AttributeError"
  by (simp add: set_sqlite_pragma_def)

end
